theory Spec2Isabelle
  imports Main
begin

section \<open>The sample server of \<^verbatim>\<open>src/server.js\<close>\<close>

text \<open>
  The repository's own code is one Express application with two routes,
  \<^verbatim>\<open>GET /api/hello\<close> and \<^verbatim>\<open>GET /health\<close>. Both handlers are straight-line
  JavaScript over three library objects: the Express response, the OpenTelemetry span
  returned by \<^verbatim>\<open>tracer.startSpan\<close>, and the console. The handlers are embedded as
  state transformers that may complete normally or throw.
\<close>

subsection \<open>Values\<close>

text \<open>The JSON values the handlers build: strings and objects with ordered fields.\<close>

datatype json = JString string | JObject "(string \<times> json) list"

text \<open>
  What a statement throws. Node, Express and the OpenTelemetry API throw \<^verbatim>\<open>Error\<close>
  objects; \<open>error_code\<close> is empty for an error without a \<^verbatim>\<open>code\<close> property.
\<close>

record js_error =
  error_name :: string
  error_message :: string
  error_code :: string

subsection \<open>The request\<close>

text \<open>
  \<open>headers\<close> is Node's \<^verbatim>\<open>req.headers\<close>: names in lower case, one value per name.
  Reading a name that is absent gives \<^verbatim>\<open>undefined\<close> in JavaScript; every test the
  server's libraries make on a header value treats \<^verbatim>\<open>undefined\<close> and the empty string
  alike, so \<open>header\<close> returns the empty string for both.
\<close>

record request =
  url :: string
  http_method :: string
  headers :: "(string \<times> string) list"
  body :: string

definition header :: "request \<Rightarrow> string \<Rightarrow> string" where
  "header req name = (case map_of (headers req) name of None \<Rightarrow> [] | Some v \<Rightarrow> v)"

subsection \<open>The response\<close>

text \<open>
  The Express response object, as far as \<^verbatim>\<open>res.json\<close> and \<^verbatim>\<open>res.send\<close> decide
  the status and the body from it: the status code (200 until somebody sets it), whether
  the head has gone out, the \<^verbatim>\<open>Content-Type\<close> and \<^verbatim>\<open>ETag\<close> headers, and the body
  that was sent (\<open>None\<close>: no body). Nothing in the server sets \<^verbatim>\<open>Last-Modified\<close>,
  so the response has no such header.
\<close>

record response =
  statusCode :: nat
  headersSent :: bool
  contentType :: "string option"
  etag :: "string option"
  sent_body :: "json option"

definition new_response :: response where
  "new_response =
     \<lparr>statusCode = 200, headersSent = False, contentType = None, etag = None,
      sent_body = None\<rparr>"

text \<open>\<^verbatim>\<open>!res.get(name)\<close>: the header is absent or empty.\<close>

definition unset :: "string option \<Rightarrow> bool" where
  "unset h = (case h of None \<Rightarrow> True | Some v \<Rightarrow> v = [])"

subsection \<open>Conditional requests\<close>

text \<open>
  \<^verbatim>\<open>res.send\<close> asks \<^verbatim>\<open>req.fresh\<close> whether the client's copy is still good. The
  test is the one of the \<^verbatim>\<open>fresh\<close> module that Express 4 uses.

  \<open>no_cache\<close> is the regular expression
  \<^verbatim>\<open>/(?:^|,)\s*?no-cache\s*?(?:,|$)/\<close>: one of the comma-separated parts of the value
  is \<^verbatim>\<open>no-cache\<close> between white space.
\<close>

fun split_commas :: "string \<Rightarrow> string list" where
  "split_commas [] = [[]]"
| "split_commas (c # cs) =
     (if c = CHR '','' then [] # split_commas cs
      else (case split_commas cs of [] \<Rightarrow> [[c]] | t # ts \<Rightarrow> (c # t) # ts))"

definition strip :: "(char \<Rightarrow> bool) \<Rightarrow> string \<Rightarrow> string" where
  "strip p v = rev (dropWhile p (rev (dropWhile p v)))"

definition is_space :: "char \<Rightarrow> bool" where
  "is_space c =
     (c = CHR 0x09 \<or> c = CHR 0x0A \<or> c = CHR 0x0B \<or> c = CHR 0x0C \<or> c = CHR 0x0D \<or>
      c = CHR 0x20 \<or> c = CHR 0xA0)"

definition no_cache :: "string \<Rightarrow> bool" where
  "no_cache v = (''no-cache'' \<in> set (map (strip is_space) (split_commas v)))"

text \<open>
  \<^verbatim>\<open>parseTokenList\<close>: the comma-separated parts, each without the spaces (0x20) at
  its ends.
\<close>

definition parseTokenList :: "string \<Rightarrow> string list" where
  "parseTokenList v = map (strip (\<lambda>c. c = CHR 0x20)) (split_commas v)"

definition etag_matches :: "string \<Rightarrow> string \<Rightarrow> bool" where
  "etag_matches t m = (m = t \<or> m = ''W/'' @ t \<or> ''W/'' @ m = t)"

definition fresh :: "request \<Rightarrow> response \<Rightarrow> bool" where
  "fresh req r =
     (let modifiedSince = header req ''if-modified-since'';
          noneMatch = header req ''if-none-match''
      in if modifiedSince = [] \<and> noneMatch = [] then False
         else if no_cache (header req ''cache-control'') then False
         else if noneMatch \<noteq> [] \<and> noneMatch \<noteq> ''*'' \<and>
                 (case etag r of
                    None \<Rightarrow> True
                  | Some t \<Rightarrow> t = [] \<or> \<not> list_ex (etag_matches t) (parseTokenList noneMatch))
         then False
         else if modifiedSince \<noteq> [] then False
         else True)"

text \<open>
  The getter \<^verbatim>\<open>req.fresh\<close>: only for GET and HEAD, and only when the status is 2xx
  or 304.
\<close>

definition req_fresh :: "request \<Rightarrow> response \<Rightarrow> bool" where
  "req_fresh req r =
     (if http_method req \<noteq> ''GET'' \<and> http_method req \<noteq> ''HEAD'' then False
      else if (200 \<le> statusCode r \<and> statusCode r < 300) \<or> statusCode r = 304
           then fresh req r
           else False)"

subsection \<open>Spans\<close>

record span_event =
  event_name :: string
  event_attributes :: "(string \<times> string) list"

text \<open>\<^verbatim>\<open>{ code, message }\<close>; code 0 is UNSET, 1 is OK, 2 is ERROR.\<close>

record span_status =
  status_code :: nat
  status_message :: "string option"

text \<open>The methods the handler invokes on its span that may change it.\<close>

datatype span_call =
    CallSetAttributes "(string \<times> string) list"
  | CallRecordException js_error
  | CallSetStatus nat string
  | CallEnd

text \<open>
  A span object. \<open>recording\<close> tells the SDK's \<^verbatim>\<open>Span\<close> from the API's
  \<^verbatim>\<open>NonRecordingSpan\<close>, which \<^verbatim>\<open>tracer.startSpan\<close> returns when the sampler decides
  not to record; such a span has a span context and stores nothing else. \<open>calls\<close> is
  the list of the methods invoked on the object, in order, whether or not they had an
  effect.
\<close>

record span =
  span_name :: string
  traceId :: string
  recording :: bool
  attributes :: "(string \<times> string) list"
  events :: "span_event list"
  status :: span_status
  ended :: bool
  calls :: "span_call list"

subsection \<open>The state a handler runs in\<close>

text \<open>
  \<open>res\<close> is the response object of the request being served. The rest is state of the
  server process: what was written to the console, the span objects the tracer has
  handed out (a span object is its index in \<open>spans\<close>), the clock in milliseconds, and
  the active context: the trace identifier a span started now receives and the decision
  of the sampler for it. \<^verbatim>\<open>NodeSDK\<close> is built without a sampler, so the decision is
  that of the parent span in the active context, and a span without a parent is
  sampled.
\<close>

record state =
  res :: response
  console :: "string list"
  spans :: "span list"
  active_trace_id :: string
  active_sampled :: bool
  clock :: int

text \<open>
  A statement maps the state to a completion and the state it leaves: \<open>Inr v\<close> is a
  normal completion with value \<open>v\<close>, \<open>Inl e\<close> is \<^verbatim>\<open>throw e\<close>. The state changes made
  before a throw stay.
\<close>

type_synonym 'a js = "state \<Rightarrow> (js_error + 'a) \<times> state"




subsection \<open>The library calls\<close>

text \<open>
  Three functions of the libraries are parameters of the model:
  \<^verbatim>\<open>Date.prototype.toISOString\<close> as a function of the clock's reading, the
  application's \<^verbatim>\<open>etag fn\<close> (by default the weak entity tag of the serialised body),
  and \<^verbatim>\<open>setCharset(type, 'utf-8')\<close> on a \<^verbatim>\<open>Content-Type\<close> that somebody has set
  before.
\<close>

record lib =
  toISOString :: "int \<Rightarrow> string"
  etag_fn :: "json \<Rightarrow> string"
  setCharset :: "string \<Rightarrow> string"


text \<open>
  \<^verbatim>\<open>res.json(obj)\<close> serialises \<open>obj\<close>, sets \<^verbatim>\<open>Content-Type\<close> to
  \<^verbatim>\<open>application/json\<close> unless one is set, and calls \<^verbatim>\<open>res.send\<close>. That adds the
  charset to the type, generates the \<^verbatim>\<open>ETag\<close> unless one is set, turns the status
  into 304 when the request is fresh, drops the type and the body for status 204 and
  304 and the body for 205, and sends no body in answer to HEAD. \<open>json_response\<close> is
  the response all this leaves. Setting a header after the head has gone out throws.
\<close>

definition headers_sent_error :: js_error where
  "headers_sent_error =
     \<lparr>error_name = ''Error'',
      error_message = ''Cannot set headers after they are sent to the client'',
      error_code = ''ERR_HTTP_HEADERS_SENT''\<rparr>"

definition json_response :: "lib \<Rightarrow> request \<Rightarrow> json \<Rightarrow> response \<Rightarrow> response" where
  "json_response l req obj r =
     (let r1 = r\<lparr>contentType :=
                  (if unset (contentType r) then Some ''application/json; charset=utf-8''
                   else map_option (setCharset l) (contentType r))\<rparr>;
          r2 = (if unset (etag r1) then r1\<lparr>etag := Some (etag_fn l obj)\<rparr> else r1);
          r3 = (if req_fresh req r2 then r2\<lparr>statusCode := 304\<rparr> else r2);
          stripped = (statusCode r3 = 204 \<or> statusCode r3 = 304);
          r4 = (if stripped then r3\<lparr>contentType := None\<rparr> else r3);
          empty = (stripped \<or> statusCode r4 = 205 \<or> http_method req = ''HEAD'')
      in r4\<lparr>headersSent := True, sent_body := (if empty then None else Some obj)\<rparr>)"

definition res_json :: "lib \<Rightarrow> request \<Rightarrow> json \<Rightarrow> unit js" where
  "res_json l req obj s =
     (if headersSent (res s) then (Inl headers_sent_error, s)
      else (Inr (), s\<lparr>res := json_response l req obj (res s)\<rparr>))"











subsection \<open>\<^verbatim>\<open>GET /health\<close>\<close>

text \<open>
  \<^verbatim>\<open>app.get('/health', (req, res) => { res.json({ status: 'ok', service: 'node-api' }); })\<close>
\<close>

definition health_json :: json where
  "health_json = JObject [(''status'', JString ''ok''), (''service'', JString ''node-api'')]"

definition health_handler :: "lib \<Rightarrow> request \<Rightarrow> unit js" where
  "health_handler l req = res_json l req health_json"

subsection \<open>\<^verbatim>\<open>GET /api/hello\<close>\<close>










subsection \<open>Concrete requests\<close>

text \<open>
  A process that has started no span yet, at 2023-11-14 22:13:20 UTC. The entity tags
  are the ones Express computes for the two bodies of these runs.
\<close>

definition demo_state :: state where
  "demo_state =
     \<lparr>res = new_response, console = [], spans = [],
      active_trace_id = ''4bf92f3577b34da6a3ce929d0e0e4736'', active_sampled = True,
      clock = 1700000000000\<rparr>"

definition health_etag :: string where
  "health_etag = ''W/'' @ [CHR 0x22] @ ''24-VUzy60zh4wv9EZA1EennrUeWI/0'' @ [CHR 0x22]"

definition hello_etag :: string where
  "hello_etag = ''W/'' @ [CHR 0x22] @ ''6d-y/OhLm1BJUS3wxnSrYZaSPN/Ezw'' @ [CHR 0x22]"

definition demo_lib :: lib where
  "demo_lib =
     \<lparr>toISOString = (\<lambda>_. ''2023-11-14T22:13:20.000Z''),
      etag_fn = (\<lambda>obj. if obj = health_json then health_etag else hello_etag),
      setCharset = (\<lambda>t. t)\<rparr>"

text \<open>
  \<open>setCharset\<close> is not applied in these runs: the response starts without a
  \<^verbatim>\<open>Content-Type\<close>.
\<close>

definition health_request :: request where
  "health_request = \<lparr>url = ''/health'', http_method = ''GET'', headers = [], body = []\<rparr>"


text \<open>The same requests from a client that sends \<^verbatim>\<open>If-None-Match: *\<close>.\<close>

definition conditional_health_request :: request where
  "conditional_health_request = health_request\<lparr>headers := [(''if-none-match'', ''*'')]\<rparr>"





section \<open>Properties of the handlers\<close>

subsection \<open>What \<^verbatim>\<open>res.json\<close> sends on a fresh response\<close>

text \<open>The freshness test reads the response's \<^verbatim>\<open>ETag\<close> and nothing else of it.\<close>

lemma fresh_etag_only: "etag r = etag r' \<Longrightarrow> fresh req r = fresh req r'"
  by (simp add: fresh_def)

lemma fresh_unconditional:
  "header req ''if-none-match'' = [] \<Longrightarrow> header req ''if-modified-since'' = [] \<Longrightarrow>
   \<not> fresh req r"
  by (simp add: fresh_def)

lemma json_response_new:
  assumes "http_method req = ''GET''"
  shows "json_response l req obj new_response =
           (if fresh req (new_response\<lparr>etag := Some (etag_fn l obj)\<rparr>)
            then \<lparr>statusCode = 304, headersSent = True, contentType = None,
                  etag = Some (etag_fn l obj), sent_body = None\<rparr>
            else \<lparr>statusCode = 200, headersSent = True,
                  contentType = Some ''application/json; charset=utf-8'',
                  etag = Some (etag_fn l obj), sent_body = Some obj\<rparr>)"
proof -
  let ?r2 = "new_response\<lparr>contentType := Some ''application/json; charset=utf-8'',
                           etag := Some (etag_fn l obj)\<rparr>"
  have "fresh req ?r2 = fresh req (new_response\<lparr>etag := Some (etag_fn l obj)\<rparr>)"
    by (rule fresh_etag_only) simp
  then show ?thesis
    using assms
    by (simp add: json_response_def new_response_def unset_def req_fresh_def Let_def)
qed

subsection \<open>The health check\<close>

text \<open>
  C9, as the server has it. For every GET request, \<^verbatim>\<open>/health\<close> on the fresh
  response Express hands to the handler completes normally. It sends status 200 with the
  JSON body \<^verbatim>\<open>{"status": "ok", "service": "node-api"}\<close>, unless the request is a
  conditional request that is fresh against the entity tag of that body; then it sends
  status 304 without a body. A request with neither \<^verbatim>\<open>If-None-Match\<close> nor
  \<^verbatim>\<open>If-Modified-Since\<close> is never fresh. The answer depends on nothing else of the
  request and on nothing of the state of the process, and the state of the process is
  left as it was: only the response object changes.
\<close>

theorem health_handler_response:
  assumes "http_method req = ''GET''"
  shows "health_handler l req (s\<lparr>res := new_response\<rparr>) =
           (Inr (),
            s\<lparr>res :=
                if fresh req (new_response\<lparr>etag := Some (etag_fn l health_json)\<rparr>)
                then \<lparr>statusCode = 304, headersSent = True, contentType = None,
                      etag = Some (etag_fn l health_json), sent_body = None\<rparr>
                else \<lparr>statusCode = 200, headersSent = True,
                      contentType = Some ''application/json; charset=utf-8'',
                      etag = Some (etag_fn l health_json),
                      sent_body = Some health_json\<rparr>\<rparr>) \<and>
         (header req ''if-none-match'' = [] \<and> header req ''if-modified-since'' = [] \<longrightarrow>
            \<not> fresh req (new_response\<lparr>etag := Some (etag_fn l health_json)\<rparr>))"
proof -
  have "\<not> headersSent new_response"
    by (simp add: new_response_def)
  then have "health_handler l req (s\<lparr>res := new_response\<rparr>) =
               (Inr (), s\<lparr>res := json_response l req health_json new_response\<rparr>)"
    by (simp add: health_handler_def res_json_def)
  then show ?thesis
    using json_response_new [OF assms, of l health_json] fresh_unconditional
    by simp
qed

text \<open>
  An unconditional request gets 200 and the body; the same request with
  \<^verbatim>\<open>If-None-Match: *\<close> gets 304 and no body.
\<close>

theorem health_handler_response_witness:
  "http_method health_request = ''GET'' \<and>
   health_handler demo_lib health_request (demo_state\<lparr>res := new_response\<rparr>) =
     (Inr (),
      demo_state\<lparr>res :=
        \<lparr>statusCode = 200, headersSent = True,
         contentType = Some ''application/json; charset=utf-8'',
         etag = Some health_etag, sent_body = Some health_json\<rparr>\<rparr>) \<and>
   http_method conditional_health_request = ''GET'' \<and>
   health_handler demo_lib conditional_health_request (demo_state\<lparr>res := new_response\<rparr>) =
     (Inr (),
      demo_state\<lparr>res :=
        \<lparr>statusCode = 304, headersSent = True, contentType = None,
         etag = Some health_etag, sent_body = None\<rparr>\<rparr>)"
proof -
  have get: "http_method health_request = ''GET''"
    and get': "http_method conditional_health_request = ''GET''"
    by (simp_all add: health_request_def conditional_health_request_def)
  have plain: "header health_request ''if-none-match'' = [] \<and>
               header health_request ''if-modified-since'' = []"
    by (simp add: header_def health_request_def)
  have star: "fresh conditional_health_request r" for r
    by (simp add: fresh_def header_def no_cache_def strip_def is_space_def
        conditional_health_request_def health_request_def)
  have tag: "etag_fn demo_lib health_json = health_etag"
    by (simp add: demo_lib_def)
  from health_handler_response [OF get, of demo_lib demo_state] plain tag
  have 1: "health_handler demo_lib health_request (demo_state\<lparr>res := new_response\<rparr>) =
     (Inr (),
      demo_state\<lparr>res :=
        \<lparr>statusCode = 200, headersSent = True,
         contentType = Some ''application/json; charset=utf-8'',
         etag = Some health_etag, sent_body = Some health_json\<rparr>\<rparr>)"
    by simp
  from health_handler_response [OF get', of demo_lib demo_state] star tag
  have 2: "health_handler demo_lib conditional_health_request
             (demo_state\<lparr>res := new_response\<rparr>) =
     (Inr (),
      demo_state\<lparr>res :=
        \<lparr>statusCode = 304, headersSent = True, contentType = None,
         etag = Some health_etag, sent_body = None\<rparr>\<rparr>)"
    by simp
  from 1 2 get get' show ?thesis by simp
qed

text \<open>
  C9 as it is worded, status 200 and the JSON body for every request, fails at the
  request with \<^verbatim>\<open>If-None-Match: *\<close>.
\<close>

theorem health_conditional_get_counterexample:
  "http_method conditional_health_request = ''GET'' \<and>
   res demo_state = new_response \<and>
   fst (health_handler demo_lib conditional_health_request demo_state) = Inr () \<and>
   statusCode (res (snd (health_handler demo_lib conditional_health_request demo_state)))
     = 304 \<and>
   sent_body (res (snd (health_handler demo_lib conditional_health_request demo_state)))
     = None \<and>
   \<not> (statusCode (res (snd (health_handler demo_lib conditional_health_request demo_state)))
         = 200 \<and>
       sent_body (res (snd (health_handler demo_lib conditional_health_request demo_state)))
         = Some health_json)"
  by (simp add: health_handler_def res_json_def json_response_def req_fresh_def fresh_def
      header_def unset_def no_cache_def strip_def is_space_def new_response_def
      conditional_health_request_def health_request_def demo_state_def demo_lib_def Let_def)

subsection \<open>The span of the hello handler\<close>













end
